theory Spec2Isabelle
  imports Main "HOL-Library.Word"
begin

section \<open>The trace server of the Kelemetry frontend\<close>

text \<open>
  A shallow embedding of \<^verbatim>\<open>pkg/frontend/http/trace/server.go\<close>: the request handler
  \<^verbatim>\<open>handleTrace\<close>, the locator \<^verbatim>\<open>findTrace\<close> and the log filter \<^verbatim>\<open>pruneTrace\<close>.

  Go strings are byte strings (\<open>string\<close>), \<^verbatim>\<open>len\<close> counts bytes. A pointer to a trace
  or to a span is modelled by the value it points to: the span reader hands out traces
  and spans that exist (no nil pointers), nothing else holds them while the handler
  runs, and a function that updates a span through its pointer returns the updated
  trace here.
\<close>

subsection \<open>The data of the Jaeger model that the handler reads\<close>

type_synonym error = string

text \<open>
  An instant is the number of nanoseconds since Go's zero time (1 January of year 1,
  00:00:00 UTC), a duration a number of nanoseconds.
\<close>

type_synonym Time = int
type_synonym Duration = int

type_synonym TraceID = "64 word \<times> 64 word"

record KeyValue =
  Key :: string
  VStr :: string

record Log =
  Timestamp :: Time
  Fields :: "KeyValue list"

record Span =
  TraceID :: TraceID
  SpanID :: "64 word"
  Logs :: "Log list"

record Trace =
  Spans :: "Span list"

subsection \<open>pruneTrace\<close>

text \<open>
  \<^verbatim>\<open>KeyValues.FindByKey\<close> scans the fields for the first one with the given key; the
  boolean it returns beside the field is here whether the result is \<open>Some\<close>.
\<close>

fun FindByKey :: "KeyValue list \<Rightarrow> string \<Rightarrow> KeyValue option" where
  "FindByKey [] key = None"
| "FindByKey (kv # kvs) key = (if Key kv = key then Some kv else FindByKey kvs key)"

text \<open>
  The inner loop of \<^verbatim>\<open>pruneTrace\<close>: \<open>newLogs\<close> starts empty and every log of the span
  that has a field with key \<open>spanType\<close> is appended to it.
\<close>

fun pruneLogs :: "Log list \<Rightarrow> Log list \<Rightarrow> string \<Rightarrow> Log list" where
  "pruneLogs newLogs [] spanType = newLogs"
| "pruneLogs newLogs (log # logs) spanType =
     (case FindByKey (Fields log) spanType of
        Some kv \<Rightarrow> pruneLogs (newLogs @ [log]) logs spanType
      | None \<Rightarrow> pruneLogs newLogs logs spanType)"

text \<open>The outer loop: every span gets its filtered logs, in place.\<close>

fun pruneSpans :: "Span list \<Rightarrow> string \<Rightarrow> Span list" where
  "pruneSpans [] spanType = []"
| "pruneSpans (span # spans) spanType =
     span\<lparr>Logs := pruneLogs [] (Logs span) spanType\<rparr> # pruneSpans spans spanType"

definition pruneTrace :: "Trace \<Rightarrow> string \<Rightarrow> Trace" where
  "pruneTrace trace spanType =
     (if length spanType = 0 then trace
      else trace\<lparr>Spans := pruneSpans (Spans trace) spanType\<rparr>)"

text \<open>The fields of a log contain a key when one of them has it.\<close>

definition hasKey :: "string \<Rightarrow> Log \<Rightarrow> bool" where
  "hasKey spanType log = (spanType \<in> Key ` set (Fields log))"

subsection \<open>The collaborators of the server\<close>

text \<open>
  A \<^verbatim>\<open>context.Context\<close> is either \<^verbatim>\<open>context.Background()\<close>, which has no deadline and
  is never cancelled, or the context of an incoming HTTP request, cancelled with the
  request.
\<close>

datatype "context" = Background | RequestContext nat

record TraceQueryParameters =
  ServiceName :: string
  OperationName :: string
  Tags :: "string \<rightharpoonup> string"
  StartTimeMin :: Time
  StartTimeMax :: Time
  DurationMin :: Duration
  DurationMax :: Duration
  NumTraces :: int

text \<open>
  The span reader (\<^verbatim>\<open>jaegerreader.Interface\<close>) is a parameter of the server. It may keep
  a state of its own, of type \<open>'s\<close>, and each of its two methods returns an error or a
  result.
\<close>

record 's Interface =
  FindTraces :: "context \<Rightarrow> TraceQueryParameters \<Rightarrow> 's \<Rightarrow> (error + Trace list) \<times> 's"
  GetTrace :: "context \<Rightarrow> TraceID \<Rightarrow> 's \<Rightarrow> (error + Trace) \<times> 's"

text \<open>
  The server: its span reader and the listing that \<^verbatim>\<open>clusterList.List()\<close> returns.
  The logger, the clock and the metrics client do not influence the outcome of a request.
\<close>

record 's server =
  spanReader :: "'s Interface"
  clusterList :: "string list"

text \<open>
  The functions of Go's standard library that the handler calls on strings:
  \<^verbatim>\<open>strings.ToLower\<close>, \<^verbatim>\<open>strings.EqualFold\<close> and \<^verbatim>\<open>time.Parse(time.RFC3339, _)\<close>. Their
  Unicode tables and the parser are not part of the server; they are parameters.
\<close>

record stdlib =
  ToLower :: "string \<Rightarrow> string"
  EqualFold :: "string \<Rightarrow> string \<Rightarrow> bool"
  Parse :: "string \<Rightarrow> error + Time"

text \<open>
  What the span reader observes: the calls it received, in order, each with the context
  and the argument it was given. The state of a run is the reader's state and this log.
\<close>

datatype call = FindTracesCall "context" TraceQueryParameters | GetTraceCall "context" TraceID

record 's world =
  store :: 's
  calls :: "call list"

definition spanReader_FindTraces ::
  "'s server \<Rightarrow> context \<Rightarrow> TraceQueryParameters \<Rightarrow> 's world \<Rightarrow> (error + Trace list) \<times> 's world" where
  "spanReader_FindTraces server ctx parameters w =
     (case FindTraces (spanReader server) ctx parameters (store w) of
        (result, s) \<Rightarrow> (result, \<lparr>store = s, calls = calls w @ [FindTracesCall ctx parameters]\<rparr>))"

definition spanReader_GetTrace ::
  "'s server \<Rightarrow> context \<Rightarrow> TraceID \<Rightarrow> 's world \<Rightarrow> (error + Trace) \<times> 's world" where
  "spanReader_GetTrace server ctx traceID w =
     (case GetTrace (spanReader server) ctx traceID (store w) of
        (result, s) \<Rightarrow> (result, \<lparr>store = s, calls = calls w @ [GetTraceCall ctx traceID]\<rparr>))"

fun callContext :: "call \<Rightarrow> context" where
  "callContext (FindTracesCall ctx parameters) = ctx"
| "callContext (GetTraceCall ctx traceID) = ctx"

fun isGetTrace :: "call \<Rightarrow> bool" where
  "isGetTrace (FindTracesCall ctx parameters) = False"
| "isGetTrace (GetTraceCall ctx traceID) = True"

subsection \<open>Time\<close>

definition Nanosecond :: Duration where "Nanosecond = 1"
definition Microsecond :: Duration where "Microsecond = 1000 * Nanosecond"
definition Millisecond :: Duration where "Millisecond = 1000 * Microsecond"
definition Second :: Duration where "Second = 1000 * Millisecond"
definition Minute :: Duration where "Minute = 60 * Second"

text \<open>
  \<^verbatim>\<open>Time.Truncate\<close> rounds an instant down to a multiple of \<open>d\<close> since the zero time and
  returns the instant itself when \<open>d\<close> is not positive; instants before the zero time
  are rounded down too, as \<open>mod\<close> on \<open>int\<close> does. \<^verbatim>\<open>Time.Add\<close> adds a duration. The
  instants that \<^verbatim>\<open>time.Parse\<close> returns for the RFC 3339 layout lie in the years 0 to
  9999, far inside the range of Go's 64-bit count of seconds.
\<close>

definition Truncate :: "Time \<Rightarrow> Duration \<Rightarrow> Time" where
  "Truncate t d = (if d \<le> 0 then t else t - t mod d)"

definition Add :: "Time \<Rightarrow> Duration \<Rightarrow> Time" where
  "Add t d = t + d"

subsection \<open>findTrace\<close>

record traceQuery =
  Cluster :: string
  Resource :: string
  Namespace :: string
  Name :: string
  Ts :: string
  SpanType :: string

text \<open>
  A request that fails: the status code that \<^verbatim>\<open>handleTrace\<close> returns and the label that
  it stores in \<^verbatim>\<open>metric.Error\<close>. The text of the error is not modelled.
\<close>

record failure =
  code :: int
  label :: string

text \<open>
  The loop over the listing of known clusters; \<open>has\<close> is the variable \<open>hasCluster\<close>,
  false before the loop.
\<close>

fun hasCluster :: "stdlib \<Rightarrow> bool \<Rightarrow> string list \<Rightarrow> string \<Rightarrow> bool" where
  "hasCluster go has [] cluster = has"
| "hasCluster go has (knownCluster # rest) cluster =
     hasCluster go
       (if EqualFold go (ToLower go knownCluster) (ToLower go cluster) then True else has)
       rest cluster"

text \<open>The tags of the query: resource and name, and the namespace when it is not empty.\<close>

definition tags :: "traceQuery \<Rightarrow> (string \<rightharpoonup> string)" where
  "tags query =
     (let tags = [''resource'' \<mapsto> Resource query, ''name'' \<mapsto> Name query]
      in if Namespace query \<noteq> [] then tags(''namespace'' \<mapsto> Namespace query) else tags)"

text \<open>The parameters of the search; the fields that the code does not set are zero.\<close>

definition parameters :: "string \<Rightarrow> traceQuery \<Rightarrow> Time \<Rightarrow> TraceQueryParameters" where
  "parameters serviceName query timestamp =
     \<lparr>ServiceName = serviceName,
      OperationName = Cluster query,
      Tags = tags query,
      StartTimeMin = Truncate timestamp (Minute * 30),
      StartTimeMax = Add (Truncate timestamp (Minute * 30)) (Minute * 30),
      DurationMin = 0,
      DurationMax = 0,
      NumTraces = 0\<rparr>"

text \<open>
  \<^verbatim>\<open>findTrace\<close> returns a trace, a status code and an error. \<open>Inr trace\<close> is the
  return of a trace with code 200 and no error, \<open>Inl\<close> a return without a trace. Both
  calls of the span reader pass \<^verbatim>\<open>context.Background()\<close>.
\<close>

definition findTrace ::
  "stdlib \<Rightarrow> 's server \<Rightarrow> string \<Rightarrow> traceQuery \<Rightarrow> 's world \<Rightarrow> (failure + Trace) \<times> 's world" where
  "findTrace go server serviceName query w =
     (if length (Cluster query) = 0 \<or> length (Resource query) = 0 \<or> length (Name query) = 0
      then (Inl \<lparr>code = 400, label = ''EmptyParam''\<rparr>, w)
      else if \<not> hasCluster go False (clusterList server) (Cluster query)
      then (Inl \<lparr>code = 404, label = ''UnknownCluster''\<rparr>, w)
      else
        (case Parse go (Ts query) of
           Inl err \<Rightarrow> (Inl \<lparr>code = 400, label = ''InvalidTimestamp''\<rparr>, w)
         | Inr timestamp \<Rightarrow>
             (case spanReader_FindTraces server Background
                     (parameters serviceName query timestamp) w of
                (Inl err, w') \<Rightarrow> (Inl \<lparr>code = 500, label = ''TraceError''\<rparr>, w')
              | (Inr traces, w') \<Rightarrow>
                  if length traces > 1
                  then (Inl \<lparr>code = 500, label = ''MultiTraceMatch''\<rparr>, w')
                  else if length traces = 0
                  then (Inl \<lparr>code = 404, label = ''NoTraceMatch''\<rparr>, w')
                  else (Inr (traces ! 0), w'))))"

subsection \<open>handleTrace\<close>

text \<open>
  Of the \<^verbatim>\<open>gin.Context\<close> of a request: the context of the request, and what
  \<^verbatim>\<open>BindQuery\<close> makes of the parameters in its URL.
\<close>

record gin_Context =
  Request_Context :: "context"
  BindQuery :: "error + traceQuery"

text \<open>The loop over the spans; \<open>has\<close> is the variable \<open>hasLogs\<close>, false before the loop.\<close>

fun hasLogs :: "bool \<Rightarrow> Span list \<Rightarrow> bool" where
  "hasLogs has [] = has"
| "hasLogs has (span # spans) = hasLogs (if length (Logs span) > 0 then True else has) spans"

text \<open>
  The result \<open>Inr trace\<close> stands for the response with status 200 that renders \<open>trace\<close>
  (\<^verbatim>\<open>ctx.JSON(200, uiconv.FromDomain(trace))\<close>), \<open>Inl\<close> for the status code and the label
  of a failure.
\<close>

definition handleTrace ::
  "stdlib \<Rightarrow> 's server \<Rightarrow> gin_Context \<Rightarrow> 's world \<Rightarrow> (failure + Trace) \<times> 's world" where
  "handleTrace go server ctx w =
     (case BindQuery ctx of
        Inl err \<Rightarrow> (Inl \<lparr>code = 400, label = ''InvalidParam''\<rparr>, w)
      | Inr query \<Rightarrow>
          (case findTrace go server ''tracing (exclusive)'' query w of
             (Inl f, w1) \<Rightarrow> (Inl f, w1)
           | (Inr trace, w1) \<Rightarrow>
               if \<not> hasLogs False (Spans trace) \<and> length (Spans trace) > 0
               then
                 (case spanReader_GetTrace server Background (TraceID (Spans trace ! 0)) w1 of
                    (Inl err, w2) \<Rightarrow> (Inl \<lparr>code = 500, label = ''TraceError''\<rparr>, w2)
                  | (Inr trace', w2) \<Rightarrow> (Inr (pruneTrace trace' (SpanType query)), w2))
               else (Inr (pruneTrace trace (SpanType query)), w1)))"

subsection \<open>Concrete collaborators\<close>

text \<open>
  The properties below hold for every standard library \<open>go\<close>. The concrete requests
  need one to run with; all their strings are ASCII. On strings of ASCII bytes
  \<^verbatim>\<open>strings.ToLower\<close> replaces each of the letters A to Z by its lower-case letter, and
  \<^verbatim>\<open>strings.EqualFold\<close> holds of two strings that are equal up to the case of these
  letters; \<open>asciiStdlib\<close> does this on every byte string. Beyond ASCII the functions of
  Go also fold the letters of other scripts, which \<open>asciiStdlib\<close> does not: it stands
  in for the library at the concrete requests only, and every theorem is stated for an
  arbitrary \<open>go\<close>.
\<close>

definition lowerByte :: "char \<Rightarrow> char" where
  "lowerByte c =
     (let n = (of_char c :: nat) in if 65 \<le> n \<and> n \<le> 90 then char_of (n + 32) else c)"

definition asciiStdlib :: "(string \<Rightarrow> error + Time) \<Rightarrow> stdlib" where
  "asciiStdlib parse =
     \<lparr>ToLower = map lowerByte,
      EqualFold = (\<lambda>s t. map lowerByte s = map lowerByte t),
      Parse = parse\<rparr>"

text \<open>
  A parser that knows one timestamp, five minutes past ten on 1 January 2023 (UTC):
  63808164300 seconds after the zero time.
\<close>

definition parseOne :: "string \<Rightarrow> error + Time" where
  "parseOne ts =
     (if ts = ''2023-01-01T10:05:00Z'' then Inr (63808164300 * Second)
      else Inl ''cannot parse'')"

definition go0 :: stdlib where
  "go0 = asciiStdlib parseOne"

text \<open>
  An in-memory span reader: it answers every search with \<open>found\<close> and every fetch by
  trace ID with \<open>fetched\<close>, and counts the calls it has served.
\<close>

definition fakeReader :: "(error + Trace list) \<Rightarrow> (error + Trace) \<Rightarrow> nat Interface" where
  "fakeReader found fetched =
     \<lparr>FindTraces = (\<lambda>ctx parameters n. (found, Suc n)),
      GetTrace = (\<lambda>ctx traceID n. (fetched, Suc n))\<rparr>"

definition fakeServer :: "(error + Trace list) \<Rightarrow> (error + Trace) \<Rightarrow> nat server" where
  "fakeServer found fetched =
     \<lparr>spanReader = fakeReader found fetched, clusterList = [''staging'', ''prod'']\<rparr>"

definition world0 :: "nat world" where
  "world0 = \<lparr>store = 0, calls = []\<rparr>"

definition query0 :: traceQuery where
  "query0 =
     \<lparr>Cluster = ''Prod'', Resource = ''pods'', Namespace = ''default'', Name = ''foo-123'',
      Ts = ''2023-01-01T10:05:00Z'', SpanType = ''audit''\<rparr>"

definition ctx0 :: gin_Context where
  "ctx0 = \<lparr>Request_Context = RequestContext 1, BindQuery = Inr query0\<rparr>"

definition auditLog :: Log where
  "auditLog = \<lparr>Timestamp = 63808164301 * Second, Fields = [\<lparr>Key = ''audit'', VStr = ''create''\<rparr>]\<rparr>"

definition eventLog :: Log where
  "eventLog = \<lparr>Timestamp = 63808164302 * Second, Fields = [\<lparr>Key = ''event'', VStr = ''Scheduled''\<rparr>]\<rparr>"

definition statusLog :: Log where
  "statusLog =
     \<lparr>Timestamp = 63808164303 * Second,
      Fields = [\<lparr>Key = ''status'', VStr = ''Running''\<rparr>, \<lparr>Key = ''audit'', VStr = ''update''\<rparr>]\<rparr>"

text \<open>A trace whose only span has no logs, as a search may return it.\<close>

definition shallowTrace :: Trace where
  "shallowTrace = \<lparr>Spans = [\<lparr>TraceID = (0, 7), SpanID = 1, Logs = []\<rparr>]\<rparr>"

text \<open>The same trace in full: one span with three logs and one whose log has no audit field.\<close>

definition fullTrace :: Trace where
  "fullTrace =
     \<lparr>Spans = [\<lparr>TraceID = (0, 7), SpanID = 1, Logs = [auditLog, eventLog, statusLog]\<rparr>,
               \<lparr>TraceID = (0, 7), SpanID = 2, Logs = [eventLog]\<rparr>]\<rparr>"

definition otherTrace :: Trace where
  "otherTrace = \<lparr>Spans = [\<lparr>TraceID = (0, 8), SpanID = 1, Logs = [eventLog]\<rparr>]\<rparr>"

section \<open>Properties\<close>

subsection \<open>Auxiliary facts\<close>

lemma FindByKey_None: "FindByKey kvs key = None \<longleftrightarrow> key \<notin> Key ` set kvs"
  by (induction kvs) auto

lemma hasKey_FindByKey: "hasKey spanType log \<longleftrightarrow> FindByKey (Fields log) spanType \<noteq> None"
  by (simp add: hasKey_def FindByKey_None)

lemma pruneLogs_filter: "pruneLogs newLogs logs spanType = newLogs @ filter (hasKey spanType) logs"
proof (induction logs arbitrary: newLogs)
  case Nil
  show ?case by simp
next
  case (Cons log logs)
  show ?case
    by (cases "FindByKey (Fields log) spanType") (simp_all add: Cons.IH hasKey_FindByKey)
qed

lemma pruneSpans_map:
  "pruneSpans spans spanType = map (\<lambda>span. span\<lparr>Logs := filter (hasKey spanType) (Logs span)\<rparr>) spans"
  by (induction spans) (simp_all add: pruneLogs_filter)

lemma pruneTrace_Spans:
  "spanType \<noteq> [] \<Longrightarrow> Spans (pruneTrace trace spanType) =
     map (\<lambda>span. span\<lparr>Logs := filter (hasKey spanType) (Logs span)\<rparr>) (Spans trace)"
  by (simp add: pruneTrace_def pruneSpans_map)

lemma hasCluster_iff:
  "hasCluster go has known cluster \<longleftrightarrow>
     has \<or> (\<exists>k \<in> set known. EqualFold go (ToLower go k) (ToLower go cluster))"
  by (induction known arbitrary: has) auto

lemma hasLogs_iff: "hasLogs has spans \<longleftrightarrow> has \<or> (\<exists>span \<in> set spans. Logs span \<noteq> [])"
  by (induction spans arbitrary: has) auto

lemma durations:
  "Second = 1000000000" "Minute = 60000000000"
  by (simp_all add: Minute_def Second_def Millisecond_def Microsecond_def Nanosecond_def)

text \<open>
  What \<open>findTrace\<close> does once the identity is complete, the cluster is known and
  the timestamp parses, and how it leaves the log of calls otherwise.
\<close>

lemma findTrace_searches:
  assumes "Cluster q \<noteq> []" and "Resource q \<noteq> []" and "Name q \<noteq> []"
    and "hasCluster go False (clusterList srv) (Cluster q)"
    and "Parse go (Ts q) = Inr t"
    and "FindTraces (spanReader srv) Background (parameters sn q t) (store w) = (r, s1)"
  shows "findTrace go srv sn q w =
    (case r of
       Inl err \<Rightarrow> Inl \<lparr>code = 500, label = ''TraceError''\<rparr>
     | Inr traces \<Rightarrow>
         if length traces > 1 then Inl \<lparr>code = 500, label = ''MultiTraceMatch''\<rparr>
         else if length traces = 0 then Inl \<lparr>code = 404, label = ''NoTraceMatch''\<rparr>
         else Inr (traces ! 0),
     \<lparr>store = s1, calls = calls w @ [FindTracesCall Background (parameters sn q t)]\<rparr>)"
  using assms by (simp add: findTrace_def spanReader_FindTraces_def split: sum.splits)

lemma findTrace_world:
  assumes "findTrace go srv sn q w = (r, w1)"
  shows "(w1 = w \<and> (\<exists>f. r = Inl f)) \<or>
         (\<exists>t. Parse go (Ts q) = Inr t \<and>
              calls w1 = calls w @ [FindTracesCall Background (parameters sn q t)])"
  using assms
  by (auto simp: findTrace_def spanReader_FindTraces_def split: if_splits sum.splits prod.splits)

lemma findTrace_unchanged:
  assumes "Cluster q = [] \<or> Resource q = [] \<or> Name q = [] \<or>
           \<not> hasCluster go False (clusterList srv) (Cluster q) \<or> (\<exists>err. Parse go (Ts q) = Inl err)"
  shows "\<exists>f. findTrace go srv sn q w = (Inl f, w)"
  using assms by (auto simp: findTrace_def)

text \<open>
  What \<open>handleTrace\<close> does after \<open>findTrace\<close> has returned, and which calls it adds
  to the log.
\<close>

lemma handleTrace_located:
  assumes "BindQuery ctx = Inr q"
    and "findTrace go srv ''tracing (exclusive)'' q w = (Inr trace, w1)"
    and "GetTrace (spanReader srv) Background (TraceID (Spans trace ! 0)) (store w1) = (r, s2)"
  shows "handleTrace go srv ctx w =
    (if Spans trace \<noteq> [] \<and> (\<forall>span \<in> set (Spans trace). Logs span = [])
     then (case r of
             Inl err \<Rightarrow> Inl \<lparr>code = 500, label = ''TraceError''\<rparr>
           | Inr trace' \<Rightarrow> Inr (pruneTrace trace' (SpanType q)),
           \<lparr>store = s2, calls = calls w1 @ [GetTraceCall Background (TraceID (Spans trace ! 0))]\<rparr>)
     else (Inr (pruneTrace trace (SpanType q)), w1))"
  using assms
  by (auto simp: handleTrace_def spanReader_GetTrace_def hasLogs_iff split: sum.splits)

lemma handleTrace_failed:
  assumes "BindQuery ctx = Inr q"
    and "findTrace go srv ''tracing (exclusive)'' q w = (Inl f, w1)"
  shows "handleTrace go srv ctx w = (Inl f, w1)"
  using assms by (simp add: handleTrace_def)

lemma handleTrace_calls:
  "\<exists>new. calls (snd (handleTrace go srv ctx w)) = calls w @ new \<and>
         callContext ` set new \<subseteq> {Background} \<and> length (filter isGetTrace new) \<le> 1"
proof (cases "BindQuery ctx")
  case (Inl err)
  then show ?thesis by (simp add: handleTrace_def)
next
  case (Inr q)
  obtain r w1 where f: "findTrace go srv ''tracing (exclusive)'' q w = (r, w1)"
    by (cases "findTrace go srv ''tracing (exclusive)'' q w")
  from findTrace_world [OF f]
  obtain new1 where n1: "calls w1 = calls w @ new1" "callContext ` set new1 \<subseteq> {Background}"
    "filter isGetTrace new1 = []"
    by (cases "w1 = w") auto
  show ?thesis
  proof (cases r)
    case (Inl fl)
    with handleTrace_failed [OF Inr] f have "handleTrace go srv ctx w = (Inl fl, w1)" by simp
    with n1 show ?thesis by simp
  next
    case r: (Inr trace)
    obtain g s2 where g: "GetTrace (spanReader srv) Background (TraceID (Spans trace ! 0)) (store w1) = (g, s2)"
      by (cases "GetTrace (spanReader srv) Background (TraceID (Spans trace ! 0)) (store w1)")
    from f r have f': "findTrace go srv ''tracing (exclusive)'' q w = (Inr trace, w1)" by simp
    show ?thesis
      using n1 by (simp add: handleTrace_located [OF Inr f' g])
  qed
qed

lemma handleTrace_searches:
  assumes "BindQuery ctx = Inr q"
    and "Cluster q \<noteq> []" and "Resource q \<noteq> []" and "Name q \<noteq> []"
    and "\<exists>k \<in> set (clusterList srv). EqualFold go (ToLower go k) (ToLower go (Cluster q))"
    and "Parse go (Ts q) = Inr t"
  shows "\<exists>rest. calls (snd (handleTrace go srv ctx w)) =
           calls w @ FindTracesCall Background (parameters ''tracing (exclusive)'' q t) # rest"
proof -
  obtain r s1 where fr:
    "FindTraces (spanReader srv) Background (parameters ''tracing (exclusive)'' q t) (store w) = (r, s1)"
    by (cases "FindTraces (spanReader srv) Background (parameters ''tracing (exclusive)'' q t) (store w)")
  from assms(5) have known: "hasCluster go False (clusterList srv) (Cluster q)"
    by (simp add: hasCluster_iff)
  obtain res w1 where ft: "findTrace go srv ''tracing (exclusive)'' q w = (res, w1)"
    and w1: "calls w1 = calls w @ [FindTracesCall Background (parameters ''tracing (exclusive)'' q t)]"
    using findTrace_searches [OF assms(2-4) known assms(6) fr] by simp
  show ?thesis
  proof (cases res)
    case (Inl f)
    with ft have "findTrace go srv ''tracing (exclusive)'' q w = (Inl f, w1)" by simp
    from handleTrace_failed [OF assms(1) this] w1 show ?thesis by simp
  next
    case (Inr trace)
    obtain g s2 where g: "GetTrace (spanReader srv) Background (TraceID (Spans trace ! 0)) (store w1) = (g, s2)"
      by (cases "GetTrace (spanReader srv) Background (TraceID (Spans trace ! 0)) (store w1)")
    from ft Inr have f': "findTrace go srv ''tracing (exclusive)'' q w = (Inr trace, w1)" by simp
    show ?thesis
      using w1 by (simp add: handleTrace_located [OF assms(1) f' g])
  qed
qed

lemma handleTrace_search_issued:
  assumes "calls (snd (handleTrace go srv ctx w)) = calls w @ FindTracesCall c p # rest"
  shows "\<exists>q t. BindQuery ctx = Inr q \<and> Cluster q \<noteq> [] \<and> Resource q \<noteq> [] \<and> Name q \<noteq> [] \<and>
           hasCluster go False (clusterList srv) (Cluster q) \<and> Parse go (Ts q) = Inr t \<and>
           c = Background \<and> p = parameters ''tracing (exclusive)'' q t"
proof (cases "BindQuery ctx")
  case (Inl err)
  with assms show ?thesis by (simp add: handleTrace_def)
next
  case (Inr q)
  show ?thesis
  proof (cases "Cluster q = [] \<or> Resource q = [] \<or> Name q = [] \<or>
           \<not> hasCluster go False (clusterList srv) (Cluster q) \<or> (\<exists>err. Parse go (Ts q) = Inl err)")
    case True
    from findTrace_unchanged [OF True]
    obtain f where "findTrace go srv ''tracing (exclusive)'' q w = (Inl f, w)" by blast
    from handleTrace_failed [OF Inr this] assms show ?thesis by simp
  next
    case False
    then obtain t where v: "Cluster q \<noteq> []" "Resource q \<noteq> []" "Name q \<noteq> []"
      "hasCluster go False (clusterList srv) (Cluster q)" "Parse go (Ts q) = Inr t"
      by (cases "Parse go (Ts q)") auto
    from v(4) have "\<exists>k \<in> set (clusterList srv). EqualFold go (ToLower go k) (ToLower go (Cluster q))"
      by (simp add: hasCluster_iff)
    from handleTrace_searches [OF Inr v(1-3) this v(5), of w] assms
    have "c = Background \<and> p = parameters ''tracing (exclusive)'' q t" by auto
    with Inr v show ?thesis by blast
  qed
qed

lemma handleTrace_label:
  assumes "BindQuery ctx = Inr q"
    and "hasCluster go False (clusterList srv) (Cluster q)"
    and "fst (handleTrace go srv ctx w) = Inl f"
  shows "label f \<noteq> ''UnknownCluster''"
proof -
  obtain r w1 where ft: "findTrace go srv ''tracing (exclusive)'' q w = (r, w1)"
    by (cases "findTrace go srv ''tracing (exclusive)'' q w")
  show ?thesis
  proof (cases r)
    case (Inl fl)
    from ft Inl have "findTrace go srv ''tracing (exclusive)'' q w = (Inl fl, w1)" by simp
    from handleTrace_failed [OF assms(1) this] assms(3) have "fl = f" by simp
    with ft Inl assms(2) show ?thesis
      by (auto simp: findTrace_def split: if_splits sum.splits prod.splits)
  next
    case (Inr trace)
    obtain g s2 where g: "GetTrace (spanReader srv) Background (TraceID (Spans trace ! 0)) (store w1) = (g, s2)"
      by (cases "GetTrace (spanReader srv) Background (TraceID (Spans trace ! 0)) (store w1)")
    from ft Inr have f': "findTrace go srv ''tracing (exclusive)'' q w = (Inr trace, w1)" by simp
    from assms(3) show ?thesis
      by (auto simp: handleTrace_located [OF assms(1) f' g] split: if_splits sum.splits)
  qed
qed

text \<open>
  The concrete request and the in-memory reader.
\<close>

lemma query0_fields:
  "BindQuery ctx0 = Inr query0" "Cluster query0 \<noteq> []" "Resource query0 \<noteq> []" "Name query0 \<noteq> []"
  "Parse go0 (Ts query0) = Inr (63808164300 * Second)"
  by (simp_all add: ctx0_def query0_def go0_def asciiStdlib_def parseOne_def)

lemma query0_known:
  "\<exists>k \<in> set (clusterList (fakeServer found fetched)).
      EqualFold go0 (ToLower go0 k) (ToLower go0 (Cluster query0))"
proof -
  have "EqualFold go0 (ToLower go0 ''prod'') (ToLower go0 (Cluster query0))"
    by code_simp
  then show ?thesis by (simp add: fakeServer_def)
qed

lemma fake_FindTraces:
  "FindTraces (spanReader (fakeServer found fetched)) ctx p (store world0) = (found, 1)"
  by (simp add: fakeServer_def fakeReader_def world0_def)

lemma fake_GetTrace:
  "GetTrace (spanReader (fakeServer found fetched)) ctx traceID s = (fetched, Suc s)"
  by (simp add: fakeServer_def fakeReader_def)

lemma fake_findTrace:
  "findTrace go0 (fakeServer found fetched) sn query0 world0 =
    (case found of
       Inl err \<Rightarrow> Inl \<lparr>code = 500, label = ''TraceError''\<rparr>
     | Inr traces \<Rightarrow>
         if length traces > 1 then Inl \<lparr>code = 500, label = ''MultiTraceMatch''\<rparr>
         else if length traces = 0 then Inl \<lparr>code = 404, label = ''NoTraceMatch''\<rparr>
         else Inr (traces ! 0),
     \<lparr>store = 1, calls = [FindTracesCall Background (parameters sn query0 (63808164300 * Second))]\<rparr>)"
proof -
  from query0_known [of found fetched]
  have known: "hasCluster go0 False (clusterList (fakeServer found fetched)) (Cluster query0)"
    by (simp add: hasCluster_iff)
  show ?thesis
    using findTrace_searches [OF query0_fields(2-4) known query0_fields(5) fake_FindTraces]
    by (simp add: world0_def)
qed

lemma shallowTrace_fields:
  "Spans shallowTrace \<noteq> []" "\<forall>span \<in> set (Spans shallowTrace). Logs span = []"
  "TraceID (Spans shallowTrace ! 0) = (0, 7)"
  by (simp_all add: shallowTrace_def)

lemma otherTrace_fields:
  "\<exists>span \<in> set (Spans otherTrace). Logs span \<noteq> []"
  by (simp add: otherTrace_def)

subsection \<open>The outcome of a request\<close>

text \<open>
  Claim C1, as stated, at a concrete request: the identity is complete, the cluster
  \<open>Prod\<close> is listed as \<open>prod\<close>, the timestamp parses and the search returns exactly
  one trace, whose only span has no logs. The span reader then fails to fetch the trace
  by its ID, and the handler answers with status 500 and the label \<open>TraceError\<close>, not
  with a trace.
\<close>

theorem resolve_success_counterexample:
  "BindQuery ctx0 = Inr query0 \<and>
   Cluster query0 \<noteq> [] \<and> Resource query0 \<noteq> [] \<and> Name query0 \<noteq> [] \<and>
   hasCluster go0 False (clusterList (fakeServer (Inr [shallowTrace]) (Inl ''unavailable'')))
     (Cluster query0) \<and>
   Parse go0 (Ts query0) = Inr (63808164300 * Second) \<and>
   fst (FindTraces (spanReader (fakeServer (Inr [shallowTrace]) (Inl ''unavailable''))) Background
          (parameters ''tracing (exclusive)'' query0 (63808164300 * Second)) (store world0))
     = Inr [shallowTrace] \<and>
   fst (handleTrace go0 (fakeServer (Inr [shallowTrace]) (Inl ''unavailable'')) ctx0 world0)
     = Inl \<lparr>code = 500, label = ''TraceError''\<rparr>"
  by code_simp

text \<open>
  Claim C1, amended. When the request binds to an identity with non-empty cluster,
  resource and name, some listed cluster matches the cluster of the identity under
  \<open>EqualFold\<close> of the lower-cased names, the timestamp parses, the search returns exactly
  one trace, and the fetch by trace ID succeeds in case that trace has spans but no span
  with a log, then the handler renders a trace: the fetched trace in that case and the
  located trace otherwise, pruned with the span type of the request. When \<open>findTrace\<close>
  fails, the handler returns that failure with the state that \<open>findTrace\<close> left: it
  neither fetches nor prunes.
\<close>

theorem resolve_success:
  "(BindQuery ctx = Inr q \<and> Cluster q \<noteq> [] \<and> Resource q \<noteq> [] \<and> Name q \<noteq> [] \<and>
    (\<exists>k \<in> set (clusterList srv). EqualFold go (ToLower go k) (ToLower go (Cluster q))) \<and>
    Parse go (Ts q) = Inr t \<and>
    FindTraces (spanReader srv) Background (parameters ''tracing (exclusive)'' q t) (store w)
      = (Inr [trace], s1) \<and>
    GetTrace (spanReader srv) Background (TraceID (Spans trace ! 0)) s1 = (r, s2) \<and>
    (Spans trace \<noteq> [] \<and> (\<forall>span \<in> set (Spans trace). Logs span = []) \<longrightarrow> r = Inr full)
    \<longrightarrow>
    fst (handleTrace go srv ctx w) =
      Inr (pruneTrace
             (if Spans trace \<noteq> [] \<and> (\<forall>span \<in> set (Spans trace). Logs span = [])
              then full else trace)
             (SpanType q))) \<and>
   (BindQuery ctx = Inr q \<and> findTrace go srv ''tracing (exclusive)'' q w = (Inl f, w1) \<longrightarrow>
    handleTrace go srv ctx w = (Inl f, w1))"
proof (intro conjI impI)
  assume a: "BindQuery ctx = Inr q \<and> Cluster q \<noteq> [] \<and> Resource q \<noteq> [] \<and> Name q \<noteq> [] \<and>
    (\<exists>k \<in> set (clusterList srv). EqualFold go (ToLower go k) (ToLower go (Cluster q))) \<and>
    Parse go (Ts q) = Inr t \<and>
    FindTraces (spanReader srv) Background (parameters ''tracing (exclusive)'' q t) (store w)
      = (Inr [trace], s1) \<and>
    GetTrace (spanReader srv) Background (TraceID (Spans trace ! 0)) s1 = (r, s2) \<and>
    (Spans trace \<noteq> [] \<and> (\<forall>span \<in> set (Spans trace). Logs span = []) \<longrightarrow> r = Inr full)"
  then have b: "BindQuery ctx = Inr q"
    and ne: "Cluster q \<noteq> []" "Resource q \<noteq> []" "Name q \<noteq> []"
    and known: "hasCluster go False (clusterList srv) (Cluster q)"
    and p: "Parse go (Ts q) = Inr t"
    and ft: "FindTraces (spanReader srv) Background (parameters ''tracing (exclusive)'' q t) (store w)
      = (Inr [trace], s1)"
    and gt: "GetTrace (spanReader srv) Background (TraceID (Spans trace ! 0)) s1 = (r, s2)"
    and ok: "Spans trace \<noteq> [] \<and> (\<forall>span \<in> set (Spans trace). Logs span = []) \<longrightarrow> r = Inr full"
    by (simp_all add: hasCluster_iff)
  let ?w1 = "\<lparr>store = s1,
     calls = calls w @ [FindTracesCall Background (parameters ''tracing (exclusive)'' q t)]\<rparr>"
  from findTrace_searches [OF ne known p ft]
  have f: "findTrace go srv ''tracing (exclusive)'' q w = (Inr trace, ?w1)"
    by simp
  from gt have g: "GetTrace (spanReader srv) Background (TraceID (Spans trace ! 0)) (store ?w1) = (r, s2)"
    by simp
  from ok show "fst (handleTrace go srv ctx w) =
      Inr (pruneTrace
             (if Spans trace \<noteq> [] \<and> (\<forall>span \<in> set (Spans trace). Logs span = [])
              then full else trace)
             (SpanType q))"
    by (simp add: handleTrace_located [OF b f g])
next
  assume "BindQuery ctx = Inr q \<and> findTrace go srv ''tracing (exclusive)'' q w = (Inl f, w1)"
  then show "handleTrace go srv ctx w = (Inl f, w1)"
    by (simp add: handleTrace_failed)
qed

theorem resolve_success_witness:
  "fst (handleTrace go0 (fakeServer (Inr [shallowTrace]) (Inr fullTrace)) ctx0 world0)
     = Inr (pruneTrace fullTrace ''audit'') \<and>
   handleTrace go0 (fakeServer (Inr []) (Inr fullTrace)) ctx0 world0 =
     (Inl \<lparr>code = 404, label = ''NoTraceMatch''\<rparr>,
      \<lparr>store = 1,
       calls = [FindTracesCall Background
                  (parameters ''tracing (exclusive)'' query0 (63808164300 * Second))]\<rparr>)"
proof -
  let ?w1 = "\<lparr>store = 1 :: nat,
       calls = [FindTracesCall Background
                  (parameters ''tracing (exclusive)'' query0 (63808164300 * Second))]\<rparr>"
  have g: "GetTrace (spanReader (fakeServer (Inr [shallowTrace]) (Inr fullTrace))) Background
              (TraceID (Spans shallowTrace ! 0)) 1 = (Inr fullTrace, 2)"
    by (simp add: fake_GetTrace)
  have q: "SpanType query0 = ''audit''" by (simp add: query0_def)
  from resolve_success [of ctx0 query0 "fakeServer (Inr [shallowTrace]) (Inr fullTrace)" go0
      "63808164300 * Second" world0 shallowTrace 1 "Inr fullTrace" 2 fullTrace]
    query0_fields query0_known [of "Inr [shallowTrace]" "Inr fullTrace"]
    fake_FindTraces [of "Inr [shallowTrace]" "Inr fullTrace"] g shallowTrace_fields q
  have a: "fst (handleTrace go0 (fakeServer (Inr [shallowTrace]) (Inr fullTrace)) ctx0 world0)
     = Inr (pruneTrace fullTrace ''audit'')"
    by simp
  have f: "findTrace go0 (fakeServer (Inr []) (Inr fullTrace)) ''tracing (exclusive)'' query0 world0
     = (Inl \<lparr>code = 404, label = ''NoTraceMatch''\<rparr>, ?w1)"
    by (simp add: fake_findTrace)
  from resolve_success [of ctx0 query0 "fakeServer (Inr []) (Inr fullTrace)" go0
      _ world0 _ _ _ _ _ "\<lparr>code = 404, label = ''NoTraceMatch''\<rparr>" ?w1]
    query0_fields(1) f
  have b: "handleTrace go0 (fakeServer (Inr []) (Inr fullTrace)) ctx0 world0 =
     (Inl \<lparr>code = 404, label = ''NoTraceMatch''\<rparr>, ?w1)"
    by simp
  from a b show ?thesis by simp
qed

text \<open>
  Claim C2. Whenever the handler issues a search and the span reader answers it with
  more than one trace, the handler fails with status 500 and the label
  \<open>MultiTraceMatch\<close>. The result carries no trace, and the search is the only call that
  the span reader receives.
\<close>

theorem ambiguous_match_fails:
  assumes "calls (snd (handleTrace go srv ctx w)) = calls w @ FindTracesCall c p # rest"
    and "FindTraces (spanReader srv) c p (store w) = (Inr traces, s1)"
    and "length traces > 1"
  shows "handleTrace go srv ctx w =
    (Inl \<lparr>code = 500, label = ''MultiTraceMatch''\<rparr>,
     \<lparr>store = s1, calls = calls w @ [FindTracesCall c p]\<rparr>)"
proof -
  from handleTrace_search_issued [OF assms(1)]
  obtain q t where b: "BindQuery ctx = Inr q"
    and v: "Cluster q \<noteq> []" "Resource q \<noteq> []" "Name q \<noteq> []"
      "hasCluster go False (clusterList srv) (Cluster q)" "Parse go (Ts q) = Inr t"
    and c: "c = Background" and p: "p = parameters ''tracing (exclusive)'' q t"
    by blast
  from assms(2) c p
  have "FindTraces (spanReader srv) Background (parameters ''tracing (exclusive)'' q t) (store w)
          = (Inr traces, s1)"
    by simp
  from findTrace_searches [OF v this] assms(3) c p
  have "findTrace go srv ''tracing (exclusive)'' q w =
    (Inl \<lparr>code = 500, label = ''MultiTraceMatch''\<rparr>,
     \<lparr>store = s1, calls = calls w @ [FindTracesCall c p]\<rparr>)"
    by simp
  from handleTrace_failed [OF b this] show ?thesis .
qed

theorem ambiguous_match_fails_witness:
  "length [fullTrace, otherTrace] > 1 \<and>
   handleTrace go0 (fakeServer (Inr [fullTrace, otherTrace]) (Inr fullTrace)) ctx0 world0 =
     (Inl \<lparr>code = 500, label = ''MultiTraceMatch''\<rparr>,
      \<lparr>store = 1,
       calls = [FindTracesCall Background
                  (parameters ''tracing (exclusive)'' query0 (63808164300 * Second))]\<rparr>)"
proof -
  let ?srv = "fakeServer (Inr [fullTrace, otherTrace]) (Inr fullTrace)"
  let ?p = "parameters ''tracing (exclusive)'' query0 (63808164300 * Second)"
  have l: "length [fullTrace, otherTrace] > 1" by simp
  have "findTrace go0 ?srv ''tracing (exclusive)'' query0 world0 =
          (Inl \<lparr>code = 500, label = ''MultiTraceMatch''\<rparr>,
           \<lparr>store = 1, calls = [FindTracesCall Background ?p]\<rparr>)"
    by (simp add: fake_findTrace)
  from handleTrace_failed [OF query0_fields(1) this]
  have c: "calls (snd (handleTrace go0 ?srv ctx0 world0)) = calls world0 @ FindTracesCall Background ?p # []"
    by (simp add: world0_def)
  show ?thesis
    using ambiguous_match_fails [OF c fake_FindTraces l] by (simp add: world0_def)
qed

text \<open>
  Claim C3. Let \<open>findTrace\<close> have located a trace. If the trace has a span and none
  of its spans has a log, the handler issues one fetch, by the trace ID of the first
  span; it fails with status 500 and the label \<open>TraceError\<close> when the fetch fails, and
  goes on with the fetched trace otherwise. If the trace has no span, or some span has a
  log, the handler goes on with the located trace and the span reader receives no
  further call. No request adds more than one fetch by trace ID to the log of calls.
\<close>

theorem refetch_policy:
  "(BindQuery ctx = Inr q \<and>
    findTrace go srv ''tracing (exclusive)'' q w = (Inr trace, w1) \<and>
    GetTrace (spanReader srv) Background (TraceID (Spans trace ! 0)) (store w1) = (r, s2) \<longrightarrow>
      (Spans trace \<noteq> [] \<and> (\<forall>span \<in> set (Spans trace). Logs span = []) \<longrightarrow>
         handleTrace go srv ctx w =
           (case r of
              Inl err \<Rightarrow> Inl \<lparr>code = 500, label = ''TraceError''\<rparr>
            | Inr trace' \<Rightarrow> Inr (pruneTrace trace' (SpanType q)),
            \<lparr>store = s2,
             calls = calls w1 @ [GetTraceCall Background (TraceID (Spans trace ! 0))]\<rparr>)) \<and>
      (Spans trace = [] \<or> (\<exists>span \<in> set (Spans trace). Logs span \<noteq> []) \<longrightarrow>
         handleTrace go srv ctx w = (Inr (pruneTrace trace (SpanType q)), w1))) \<and>
   length (filter isGetTrace (calls (snd (handleTrace go srv ctx w))))
     \<le> length (filter isGetTrace (calls w)) + 1"
proof (intro conjI impI)
  assume a: "BindQuery ctx = Inr q \<and>
    findTrace go srv ''tracing (exclusive)'' q w = (Inr trace, w1) \<and>
    GetTrace (spanReader srv) Background (TraceID (Spans trace ! 0)) (store w1) = (r, s2)"
  then have a1: "BindQuery ctx = Inr q"
    and a2: "findTrace go srv ''tracing (exclusive)'' q w = (Inr trace, w1)"
    and a3: "GetTrace (spanReader srv) Background (TraceID (Spans trace ! 0)) (store w1) = (r, s2)"
    by simp_all
  have h: "handleTrace go srv ctx w =
    (if Spans trace \<noteq> [] \<and> (\<forall>span \<in> set (Spans trace). Logs span = [])
     then (case r of
             Inl err \<Rightarrow> Inl \<lparr>code = 500, label = ''TraceError''\<rparr>
           | Inr trace' \<Rightarrow> Inr (pruneTrace trace' (SpanType q)),
           \<lparr>store = s2, calls = calls w1 @ [GetTraceCall Background (TraceID (Spans trace ! 0))]\<rparr>)
     else (Inr (pruneTrace trace (SpanType q)), w1))"
    by (rule handleTrace_located [OF a1 a2 a3])
  {
    assume "Spans trace \<noteq> [] \<and> (\<forall>span \<in> set (Spans trace). Logs span = [])"
    with h show "handleTrace go srv ctx w =
           (case r of
              Inl err \<Rightarrow> Inl \<lparr>code = 500, label = ''TraceError''\<rparr>
            | Inr trace' \<Rightarrow> Inr (pruneTrace trace' (SpanType q)),
            \<lparr>store = s2,
             calls = calls w1 @ [GetTraceCall Background (TraceID (Spans trace ! 0))]\<rparr>)"
      by simp
  }
  {
    assume "Spans trace = [] \<or> (\<exists>span \<in> set (Spans trace). Logs span \<noteq> [])"
    with h show "handleTrace go srv ctx w = (Inr (pruneTrace trace (SpanType q)), w1)"
      by auto
  }
next
  from handleTrace_calls [of go srv ctx w]
  obtain new where "calls (snd (handleTrace go srv ctx w)) = calls w @ new"
    and "length (filter isGetTrace new) \<le> 1"
    by blast
  then show "length (filter isGetTrace (calls (snd (handleTrace go srv ctx w))))
     \<le> length (filter isGetTrace (calls w)) + 1"
    by simp
qed

theorem refetch_policy_witness:
  "handleTrace go0 (fakeServer (Inr [shallowTrace]) (Inr fullTrace)) ctx0 world0 =
     (Inr (pruneTrace fullTrace ''audit''),
      \<lparr>store = 2,
       calls = [FindTracesCall Background
                  (parameters ''tracing (exclusive)'' query0 (63808164300 * Second)),
                GetTraceCall Background (0, 7)]\<rparr>) \<and>
   handleTrace go0 (fakeServer (Inr [otherTrace]) (Inr fullTrace)) ctx0 world0 =
     (Inr (pruneTrace otherTrace ''audit''),
      \<lparr>store = 1,
       calls = [FindTracesCall Background
                  (parameters ''tracing (exclusive)'' query0 (63808164300 * Second))]\<rparr>)"
proof -
  let ?w1 = "\<lparr>store = 1 :: nat,
       calls = [FindTracesCall Background
                  (parameters ''tracing (exclusive)'' query0 (63808164300 * Second))]\<rparr>"
  have f1: "findTrace go0 (fakeServer (Inr [shallowTrace]) (Inr fullTrace))
              ''tracing (exclusive)'' query0 world0 = (Inr shallowTrace, ?w1)"
    by (simp add: fake_findTrace)
  have g1: "GetTrace (spanReader (fakeServer (Inr [shallowTrace]) (Inr fullTrace))) Background
              (TraceID (Spans shallowTrace ! 0)) (store ?w1) = (Inr fullTrace, 2)"
    by (simp add: fake_GetTrace)
  have f2: "findTrace go0 (fakeServer (Inr [otherTrace]) (Inr fullTrace))
              ''tracing (exclusive)'' query0 world0 = (Inr otherTrace, ?w1)"
    by (simp add: fake_findTrace)
  have g2: "GetTrace (spanReader (fakeServer (Inr [otherTrace]) (Inr fullTrace))) Background
              (TraceID (Spans otherTrace ! 0)) (store ?w1) = (Inr fullTrace, 2)"
    by (simp add: fake_GetTrace)
  have q: "SpanType query0 = ''audit''" by (simp add: query0_def)
  from refetch_policy [of ctx0 query0 go0 "fakeServer (Inr [shallowTrace]) (Inr fullTrace)" world0
      shallowTrace ?w1 "Inr fullTrace" 2]
    query0_fields(1) f1 g1 shallowTrace_fields q
  have a: "handleTrace go0 (fakeServer (Inr [shallowTrace]) (Inr fullTrace)) ctx0 world0 =
     (Inr (pruneTrace fullTrace ''audit''),
      \<lparr>store = 2,
       calls = [FindTracesCall Background
                  (parameters ''tracing (exclusive)'' query0 (63808164300 * Second)),
                GetTraceCall Background (0, 7)]\<rparr>)"
    by simp
  from refetch_policy [of ctx0 query0 go0 "fakeServer (Inr [otherTrace]) (Inr fullTrace)" world0
      otherTrace ?w1 "Inr fullTrace" 2]
    query0_fields(1) f2 g2 otherTrace_fields q
  have b: "handleTrace go0 (fakeServer (Inr [otherTrace]) (Inr fullTrace)) ctx0 world0 =
     (Inr (pruneTrace otherTrace ''audit''), ?w1)"
    by simp
  from a b show ?thesis by simp
qed

subsection \<open>The log filter\<close>

text \<open>
  Claim C4. \<open>pruneTrace\<close> is a total function. With an empty span type it returns the
  trace as it is. With a span type that is not empty it keeps every span, in its place
  and with its other fields, and replaces the logs of each span by those of its logs
  that have a field whose key is the span type, in their order; a span none of whose
  logs has such a field is left with no logs.
\<close>

theorem pruneTrace_filters_logs:
  "(spanType = [] \<longrightarrow> pruneTrace trace spanType = trace) \<and>
   (spanType \<noteq> [] \<longrightarrow>
      length (Spans (pruneTrace trace spanType)) = length (Spans trace) \<and>
      (\<forall>i < length (Spans trace).
         Spans (pruneTrace trace spanType) ! i =
           (Spans trace ! i)\<lparr>Logs := filter (hasKey spanType) (Logs (Spans trace ! i))\<rparr> \<and>
         ((\<forall>log \<in> set (Logs (Spans trace ! i)). \<not> hasKey spanType log) \<longrightarrow>
            Logs (Spans (pruneTrace trace spanType) ! i) = [])))"
proof (intro conjI impI)
  assume "spanType = []"
  then show "pruneTrace trace spanType = trace"
    by (simp add: pruneTrace_def)
next
  assume ne: "spanType \<noteq> []"
  show "length (Spans (pruneTrace trace spanType)) = length (Spans trace)"
    by (simp add: pruneTrace_Spans [OF ne])
  show "\<forall>i < length (Spans trace).
         Spans (pruneTrace trace spanType) ! i =
           (Spans trace ! i)\<lparr>Logs := filter (hasKey spanType) (Logs (Spans trace ! i))\<rparr> \<and>
         ((\<forall>log \<in> set (Logs (Spans trace ! i)). \<not> hasKey spanType log) \<longrightarrow>
            Logs (Spans (pruneTrace trace spanType) ! i) = [])"
    by (simp add: pruneTrace_Spans [OF ne] filter_empty_conv)
qed

theorem pruneTrace_filters_logs_witness:
  "pruneTrace fullTrace [] = fullTrace \<and>
   length (Spans (pruneTrace fullTrace ''audit'')) = 2 \<and>
   Logs (Spans (pruneTrace fullTrace ''audit'') ! 0) = [auditLog, statusLog] \<and>
   Logs (Spans (pruneTrace fullTrace ''audit'') ! 1) = []"
proof -
  have ne: "''audit'' \<noteq> []" by simp
  have len: "length (Spans fullTrace) = 2" by (simp add: fullTrace_def)
  have l0: "filter (hasKey ''audit'') (Logs (Spans fullTrace ! 0)) = [auditLog, statusLog]"
    by code_simp
  have l1: "\<forall>log \<in> set (Logs (Spans fullTrace ! 1)). \<not> hasKey ''audit'' log"
    by code_simp
  note a = pruneTrace_filters_logs [of "[]" fullTrace]
  note b = pruneTrace_filters_logs [of "''audit''" fullTrace]
  from b ne len have n: "length (Spans (pruneTrace fullTrace ''audit'')) = 2" by simp
  from b ne len l0 have s0: "Logs (Spans (pruneTrace fullTrace ''audit'') ! 0) = [auditLog, statusLog]"
    by simp
  from b ne len l1 have s1: "Logs (Spans (pruneTrace fullTrace ''audit'') ! 1) = []"
    by simp
  from a n s0 s1 show ?thesis by simp
qed

subsection \<open>The time window\<close>

text \<open>
  Claim C5. The window of the search contains the timestamp: it starts at or before the
  timestamp and ends after it, it is exactly 30 minutes (1800 seconds) long, and the
  window of its own start is the same window.
\<close>

theorem window_contains_timestamp:
  "StartTimeMin (parameters serviceName query t) \<le> t \<and>
   t < StartTimeMax (parameters serviceName query t) \<and>
   StartTimeMax (parameters serviceName query t) - StartTimeMin (parameters serviceName query t)
     = 30 * Minute \<and>
   30 * Minute = 1800 * Second \<and>
   parameters serviceName query (StartTimeMin (parameters serviceName query t))
     = parameters serviceName query t"
proof -
  have pos: "(0::int) < Minute * 30" by (simp add: Minute_def Second_def Millisecond_def Microsecond_def Nanosecond_def)
  have lo: "Truncate t (Minute * 30) \<le> t" using pos by (simp add: Truncate_def)
  have hi: "t < Truncate t (Minute * 30) + Minute * 30"
    using pos pos_mod_bound [of "Minute * 30" t] by (simp add: Truncate_def)
  have idem: "Truncate (Truncate t (Minute * 30)) (Minute * 30) = Truncate t (Minute * 30)"
    using pos by (simp add: Truncate_def)
  show ?thesis using lo hi idem
    by (simp add: parameters_def Add_def Minute_def)
qed

subsection \<open>Requests that are rejected before any search\<close>

text \<open>
  Claim C6. When the cluster, the resource or the name of the identity is empty, the
  handler fails with status 400 and the label \<open>EmptyParam\<close>, and the state is the one
  it started from: the span reader has received no call.
\<close>

theorem empty_param_rejected:
  assumes "BindQuery ctx = Inr q"
    and "Cluster q = [] \<or> Resource q = [] \<or> Name q = []"
  shows "handleTrace go srv ctx w = (Inl \<lparr>code = 400, label = ''EmptyParam''\<rparr>, w)"
  using assms by (auto simp: handleTrace_def findTrace_def)

theorem empty_param_rejected_witness:
  "handleTrace go0 (fakeServer (Inr [fullTrace]) (Inr fullTrace))
     \<lparr>Request_Context = RequestContext 1, BindQuery = Inr (query0\<lparr>Name := []\<rparr>)\<rparr> world0
   = (Inl \<lparr>code = 400, label = ''EmptyParam''\<rparr>, world0) \<and> calls world0 = []"
proof -
  have b: "BindQuery \<lparr>Request_Context = RequestContext 1, BindQuery = Inr (query0\<lparr>Name := []\<rparr>)\<rparr>
             = Inr (query0\<lparr>Name := []\<rparr>)"
    by simp
  have e: "Cluster (query0\<lparr>Name := []\<rparr>) = [] \<or> Resource (query0\<lparr>Name := []\<rparr>) = [] \<or>
           Name (query0\<lparr>Name := []\<rparr>) = []"
    by simp
  show ?thesis
    using empty_param_rejected [OF b e, of go0 "fakeServer (Inr [fullTrace]) (Inr fullTrace)" world0]
    by (simp add: world0_def)
qed

text \<open>
  Claim C7, as stated, at a concrete request: the cluster \<open>dev\<close> matches no listed
  cluster, and the name is empty. The handler answers with status 400 and the label
  \<open>EmptyParam\<close>, not with \<open>UnknownCluster\<close>: the check for empty fields comes first.
\<close>

theorem unknown_cluster_counterexample:
  "\<not> hasCluster go0 False (clusterList (fakeServer (Inr [fullTrace]) (Inr fullTrace))) ''dev'' \<and>
   fst (handleTrace go0 (fakeServer (Inr [fullTrace]) (Inr fullTrace))
          \<lparr>Request_Context = RequestContext 1,
           BindQuery = Inr (query0\<lparr>Cluster := ''dev'', Name := []\<rparr>)\<rparr> world0)
   = Inl \<lparr>code = 400, label = ''EmptyParam''\<rparr>"
  by code_simp

text \<open>
  Claim C7, amended. When cluster, resource and name are not empty and no listed
  cluster matches the cluster of the identity case-insensitively, that is under
  \<^verbatim>\<open>strings.EqualFold\<close> of the names lower-cased by \<^verbatim>\<open>strings.ToLower\<close>, the handler
  fails with status 404 and the label \<open>UnknownCluster\<close>, and the span reader has
  received no call. Conversely, when some listed cluster matches the cluster of the
  identity in this way, wherever it stands in the listing, the membership check passes
  and no failure of the handler has the label \<open>UnknownCluster\<close>. In particular this
  holds for a cluster that differs from a listed cluster only in the case of its
  letters, so that \<^verbatim>\<open>strings.ToLower\<close> gives the same string for both, since
  \<^verbatim>\<open>strings.EqualFold\<close> holds of every string and itself. All of this is for every
  standard library \<open>go\<close>.
\<close>

theorem unknown_cluster_rejected:
  "(BindQuery ctx = Inr q \<and> Cluster q \<noteq> [] \<and> Resource q \<noteq> [] \<and> Name q \<noteq> [] \<and>
    (\<forall>k \<in> set (clusterList srv). \<not> EqualFold go (ToLower go k) (ToLower go (Cluster q)))
    \<longrightarrow> handleTrace go srv ctx w = (Inl \<lparr>code = 404, label = ''UnknownCluster''\<rparr>, w)) \<and>
   (BindQuery ctx = Inr q \<and> k \<in> set (clusterList srv) \<and>
    EqualFold go (ToLower go k) (ToLower go (Cluster q))
    \<longrightarrow> hasCluster go False (clusterList srv) (Cluster q) \<and>
        (\<forall>f. fst (handleTrace go srv ctx w) = Inl f \<longrightarrow> label f \<noteq> ''UnknownCluster'')) \<and>
   (BindQuery ctx = Inr q \<and> k \<in> set (clusterList srv) \<and>
    ToLower go k = ToLower go (Cluster q) \<and> (\<forall>s. EqualFold go s s)
    \<longrightarrow> hasCluster go False (clusterList srv) (Cluster q) \<and>
        (\<forall>f. fst (handleTrace go srv ctx w) = Inl f \<longrightarrow> label f \<noteq> ''UnknownCluster''))"
proof -
  have passes: "hasCluster go False (clusterList srv) (Cluster q) \<and>
        (\<forall>f. fst (handleTrace go srv ctx w) = Inl f \<longrightarrow> label f \<noteq> ''UnknownCluster'')"
    if b: "BindQuery ctx = Inr q" and k: "k \<in> set (clusterList srv)"
      and m: "EqualFold go (ToLower go k) (ToLower go (Cluster q))"
  proof -
    from k m have known: "hasCluster go False (clusterList srv) (Cluster q)"
      unfolding hasCluster_iff by blast
    from handleTrace_label [OF b known] known show ?thesis by blast
  qed
  show ?thesis
  proof (intro conjI impI)
    assume "BindQuery ctx = Inr q \<and> Cluster q \<noteq> [] \<and> Resource q \<noteq> [] \<and> Name q \<noteq> [] \<and>
      (\<forall>k \<in> set (clusterList srv). \<not> EqualFold go (ToLower go k) (ToLower go (Cluster q)))"
    then show "handleTrace go srv ctx w = (Inl \<lparr>code = 404, label = ''UnknownCluster''\<rparr>, w)"
      by (simp add: handleTrace_def findTrace_def hasCluster_iff)
  next
    assume a: "BindQuery ctx = Inr q \<and> k \<in> set (clusterList srv) \<and>
      EqualFold go (ToLower go k) (ToLower go (Cluster q))"
    then have p: "hasCluster go False (clusterList srv) (Cluster q) \<and>
        (\<forall>f. fst (handleTrace go srv ctx w) = Inl f \<longrightarrow> label f \<noteq> ''UnknownCluster'')"
      using passes by blast
    from p show "hasCluster go False (clusterList srv) (Cluster q)" by simp
    from p show "\<forall>f. fst (handleTrace go srv ctx w) = Inl f \<longrightarrow> label f \<noteq> ''UnknownCluster''"
      by simp
  next
    assume a: "BindQuery ctx = Inr q \<and> k \<in> set (clusterList srv) \<and>
      ToLower go k = ToLower go (Cluster q) \<and> (\<forall>s. EqualFold go s s)"
    then have "EqualFold go (ToLower go k) (ToLower go k)" by blast
    with a have "EqualFold go (ToLower go k) (ToLower go (Cluster q))" by simp
    with a have p: "hasCluster go False (clusterList srv) (Cluster q) \<and>
        (\<forall>f. fst (handleTrace go srv ctx w) = Inl f \<longrightarrow> label f \<noteq> ''UnknownCluster'')"
      using passes by blast
    from p show "hasCluster go False (clusterList srv) (Cluster q)" by simp
    from p show "\<forall>f. fst (handleTrace go srv ctx w) = Inl f \<longrightarrow> label f \<noteq> ''UnknownCluster''"
      by simp
  qed
qed

theorem unknown_cluster_rejected_witness:
  "handleTrace go0 (fakeServer (Inr [fullTrace]) (Inr fullTrace))
     \<lparr>Request_Context = RequestContext 1, BindQuery = Inr (query0\<lparr>Cluster := ''dev''\<rparr>)\<rparr> world0
   = (Inl \<lparr>code = 404, label = ''UnknownCluster''\<rparr>, world0) \<and>
   hasCluster go0 False (clusterList (fakeServer (Inr [fullTrace]) (Inr fullTrace))) ''Prod'' \<and>
   label \<lparr>code = 500, label = ''TraceError''\<rparr> \<noteq> ''UnknownCluster'' \<and>
   fst (handleTrace go0 (fakeServer (Inr [shallowTrace]) (Inl ''unavailable'')) ctx0 world0)
     = Inl \<lparr>code = 500, label = ''TraceError''\<rparr>"
proof -
  let ?srv = "fakeServer (Inr [fullTrace]) (Inr fullTrace)"
  let ?srv' = "fakeServer (Inr [shallowTrace]) (Inl ''unavailable'')"
  let ?q = "query0\<lparr>Cluster := ''dev''\<rparr>"
  let ?ctx = "\<lparr>Request_Context = RequestContext 1, BindQuery = Inr ?q\<rparr>"
  have b: "BindQuery ?ctx = Inr ?q" by simp
  have ne: "Cluster ?q \<noteq> []" "Resource ?q \<noteq> []" "Name ?q \<noteq> []"
    by (simp_all add: query0_def)
  have "\<not> hasCluster go0 False (clusterList ?srv) (Cluster ?q)"
    by code_simp
  then have un: "\<forall>k \<in> set (clusterList ?srv). \<not> EqualFold go0 (ToLower go0 k) (ToLower go0 (Cluster ?q))"
    by (simp add: hasCluster_iff)
  from unknown_cluster_rejected [where ctx = ?ctx and q = ?q and srv = ?srv and go = go0
      and w = world0] b ne un
  have a: "handleTrace go0 ?srv ?ctx world0 = (Inl \<lparr>code = 404, label = ''UnknownCluster''\<rparr>, world0)"
    by simp
  have c: "Cluster query0 = ''Prod''" by (simp add: query0_def)
  have k: "''prod'' \<in> set (clusterList ?srv)" by (simp add: fakeServer_def)
  have m: "EqualFold go0 (ToLower go0 ''prod'') (ToLower go0 (Cluster query0))" by code_simp
  from unknown_cluster_rejected [where ctx = ctx0 and q = query0 and srv = ?srv and go = go0
      and k = "''prod''" and w = world0]
    query0_fields(1) k m c
  have h: "hasCluster go0 False (clusterList ?srv) ''Prod''"
    by simp
  have k': "''prod'' \<in> set (clusterList ?srv')" by (simp add: fakeServer_def)
  have l: "ToLower go0 ''prod'' = ToLower go0 (Cluster query0)" by code_simp
  have refl: "\<forall>s. EqualFold go0 s s" by (simp add: go0_def asciiStdlib_def)
  have r: "fst (handleTrace go0 ?srv' ctx0 world0) = Inl \<lparr>code = 500, label = ''TraceError''\<rparr>"
    by code_simp
  from unknown_cluster_rejected [where ctx = ctx0 and q = query0 and srv = ?srv' and go = go0
      and k = "''prod''" and w = world0]
    query0_fields(1) k' l refl r
  have n: "label \<lparr>code = 500, label = ''TraceError''\<rparr> \<noteq> ''UnknownCluster''"
    by simp
  from a h n r show ?thesis by simp
qed

subsection \<open>The calls of the span reader\<close>

text \<open>
  Claim C8, as stated, at a concrete request: the context of the request is not the
  background context, and both calls that the span reader receives, the search and the
  fetch by trace ID, carry the background context.
\<close>

theorem caller_context_counterexample:
  "Request_Context ctx0 = RequestContext 1 \<and>
   map callContext
     (calls (snd (handleTrace go0 (fakeServer (Inr [shallowTrace]) (Inr fullTrace)) ctx0 world0)))
     = [Background, Background] \<and>
   Background \<noteq> Request_Context ctx0"
  by code_simp

text \<open>
  Claim C8, amended. The handler only adds calls to the log, and every call it adds
  carries \<^verbatim>\<open>context.Background()\<close>, whatever the context of the request is: the
  deadline and the cancellation of the request do not reach the span reader.
\<close>

theorem store_calls_use_background:
  "take (length (calls w)) (calls (snd (handleTrace go srv ctx w))) = calls w \<and>
   (\<forall>c \<in> set (drop (length (calls w)) (calls (snd (handleTrace go srv ctx w)))).
      callContext c = Background)"
proof -
  from handleTrace_calls [of go srv ctx w]
  obtain new where "calls (snd (handleTrace go srv ctx w)) = calls w @ new"
    and "callContext ` set new \<subseteq> {Background}"
    by blast
  then show ?thesis by auto
qed

theorem store_calls_use_background_witness:
  "Request_Context ctx0 = RequestContext 1 \<and>
   map callContext
     (calls (snd (handleTrace go0 (fakeServer (Inr [shallowTrace]) (Inr fullTrace)) ctx0 world0)))
     = [Background, Background]"
proof -
  let ?calls = "calls (snd (handleTrace go0 (fakeServer (Inr [shallowTrace]) (Inr fullTrace)) ctx0 world0))"
  have r: "Request_Context ctx0 = RequestContext 1" by (simp add: ctx0_def)
  have "length ?calls = 2" by code_simp
  then obtain a b where ab: "?calls = [a, b]"
    by (auto simp: numeral_2_eq_2 length_Suc_conv)
  have e: "calls world0 = []" by (simp add: world0_def)
  from store_calls_use_background [of world0 go0 "fakeServer (Inr [shallowTrace]) (Inr fullTrace)" ctx0] e ab
  have "callContext a = Background \<and> callContext b = Background" by simp
  with r ab show ?thesis by simp
qed

text \<open>
  Claim C9. For an identity that passes the checks and a timestamp that parses, the
  handler issues the search with parameters that are a function of the identity and the
  timestamp: the service name is the fixed string \<open>tracing (exclusive)\<close>, the operation
  name is the cluster, the tags are the resource and the name, and the namespace exactly
  when it is not empty, and the window starts at the timestamp rounded down to a
  multiple of 30 minutes and ends 30 minutes later.
\<close>

theorem query_derived_from_identity:
  fixes q :: traceQuery and t :: Time
  defines "p \<equiv> parameters ''tracing (exclusive)'' q t"
  assumes b: "BindQuery ctx = Inr q"
    and ne: "Cluster q \<noteq> []" "Resource q \<noteq> []" "Name q \<noteq> []"
    and known: "\<exists>k \<in> set (clusterList srv). EqualFold go (ToLower go k) (ToLower go (Cluster q))"
    and parsed: "Parse go (Ts q) = Inr t"
  shows "(\<exists>rest. calls (snd (handleTrace go srv ctx w)) =
                  calls w @ FindTracesCall Background p # rest) \<and>
      ServiceName p = ''tracing (exclusive)'' \<and>
      OperationName p = Cluster q \<and>
      dom (Tags p) =
        (if Namespace q = [] then {''resource'', ''name''}
         else {''resource'', ''name'', ''namespace''}) \<and>
      Tags p ''resource'' = Some (Resource q) \<and>
      Tags p ''name'' = Some (Name q) \<and>
      (Namespace q \<noteq> [] \<longrightarrow> Tags p ''namespace'' = Some (Namespace q)) \<and>
      StartTimeMin p = t - t mod (30 * Minute) \<and>
      StartTimeMax p = StartTimeMin p + 30 * Minute"
proof -
  have c: "\<exists>rest. calls (snd (handleTrace go srv ctx w)) =
                  calls w @ FindTracesCall Background p # rest"
    unfolding p_def by (rule handleTrace_searches [OF b ne known parsed])
  have pos: "\<not> Minute * 30 \<le> 0"
    by (simp add: durations)
  have "ServiceName p = ''tracing (exclusive)''" "OperationName p = Cluster q"
    by (simp_all add: p_def parameters_def)
  moreover have "dom (Tags p) =
        (if Namespace q = [] then {''resource'', ''name''}
         else {''resource'', ''name'', ''namespace''})"
    by (auto simp: p_def parameters_def tags_def Let_def)
  moreover have "Tags p ''resource'' = Some (Resource q)" "Tags p ''name'' = Some (Name q)"
    "Namespace q \<noteq> [] \<longrightarrow> Tags p ''namespace'' = Some (Namespace q)"
    by (simp_all add: p_def parameters_def tags_def Let_def)
  moreover have "StartTimeMin p = t - t mod (30 * Minute)"
    "StartTimeMax p = StartTimeMin p + 30 * Minute"
    using pos by (simp_all add: p_def parameters_def Truncate_def Add_def mult.commute)
  ultimately show ?thesis using c by blast
qed

theorem query_derived_from_identity_witness:
  "(case calls (snd (handleTrace go0 (fakeServer (Inr [fullTrace]) (Inr fullTrace)) ctx0 world0)) of
      FindTracesCall c p # rest \<Rightarrow>
        c = Background \<and> ServiceName p = ''tracing (exclusive)'' \<and> OperationName p = ''Prod'' \<and>
        dom (Tags p) = {''resource'', ''name'', ''namespace''} \<and>
        Tags p ''resource'' = Some ''pods'' \<and> Tags p ''name'' = Some ''foo-123'' \<and>
        Tags p ''namespace'' = Some ''default'' \<and>
        StartTimeMin p = 63808164000 * Second \<and> StartTimeMax p = 63808165800 * Second
    | _ \<Rightarrow> False)"
proof -
  let ?p = "parameters ''tracing (exclusive)'' query0 (63808164300 * Second)"
  have t: "63808164300 * Second - (63808164300 * Second) mod (30 * Minute) = 63808164000 * Second"
    by (simp add: durations)
  note q = query_derived_from_identity [OF query0_fields(1-4) query0_known query0_fields(5),
      of "Inr [fullTrace]" "Inr fullTrace" world0]
  from q obtain rest where
    "calls (snd (handleTrace go0 (fakeServer (Inr [fullTrace]) (Inr fullTrace)) ctx0 world0)) =
       calls world0 @ FindTracesCall Background ?p # rest"
    by blast
  then have c: "calls (snd (handleTrace go0 (fakeServer (Inr [fullTrace]) (Inr fullTrace)) ctx0 world0)) =
          FindTracesCall Background ?p # rest"
    by (simp add: world0_def)
  from q t have "ServiceName ?p = ''tracing (exclusive)'' \<and> OperationName ?p = ''Prod'' \<and>
        dom (Tags ?p) = {''resource'', ''name'', ''namespace''} \<and>
        Tags ?p ''resource'' = Some ''pods'' \<and> Tags ?p ''name'' = Some ''foo-123'' \<and>
        Tags ?p ''namespace'' = Some ''default'' \<and>
        StartTimeMin ?p = 63808164000 * Second \<and> StartTimeMax ?p = 63808165800 * Second"
    by (simp add: query0_def durations)
  with c show ?thesis by simp
qed

subsection \<open>Pruning twice\<close>

text \<open>
  Claim C10. Pruning twice with the same span type gives the same trace as pruning once.
\<close>

theorem pruneTrace_idempotent:
  "pruneTrace (pruneTrace trace spanType) spanType = pruneTrace trace spanType"
  by (simp add: pruneTrace_def pruneSpans_map comp_def)

end
